theory Spec2Isabelle
  imports Main
begin

section \<open>Python values, exceptions and built-ins used by the notebooks\<close>

text \<open>
  The repository's executable code is two notebooks: the emission logger
  (\<^verbatim>\<open>emission_log\<close> and the driver cell that calls it) and the magnification tutorial
  (\<^verbatim>\<open>test4\<close>, the loop over \<^verbatim>\<open>eos.UpSelector()\<close>).  Both are sequences of effects
  on the outside world, so the embedding passes an explicit world state and returns
  exceptions as values.  Failures of the operating system or of the connection to the
  microscope are outside the model; the exceptions in it are the ones the values of the
  program itself decide.
\<close>

datatype error = NameError | TypeError | ValueError | OverflowError | EOFError

text \<open>
  The Python values that reach the code under study: \<^verbatim>\<open>None\<close>, an \<^verbatim>\<open>int\<close>
  (unbounded) and a module object (the driver cell passes the module \<^verbatim>\<open>time\<close> as an
  argument).
\<close>

datatype pyval = PNone | PInt int | PModule string

text \<open>
  \<^verbatim>\<open>a == b\<close>: integers compare by value, \<^verbatim>\<open>None\<close> and modules by identity; values of
  different types are unequal.
\<close>

fun py_eq :: "pyval \<Rightarrow> pyval \<Rightarrow> bool" where
  "py_eq PNone PNone = True"
| "py_eq (PInt a) (PInt b) = (a = b)"
| "py_eq (PModule a) (PModule b) = (a = b)"
| "py_eq _ _ = False"

text \<open>
  \<^verbatim>\<open>range(n)\<close>, as the number of iterations of \<^verbatim>\<open>for i in range(n)\<close> (the loop
  variable runs over \<open>0, 1, ..., n - 1\<close>): empty for a negative integer, a
  \<^verbatim>\<open>TypeError\<close> for anything that is not an integer.
\<close>

fun py_range :: "pyval \<Rightarrow> error + nat" where
  "py_range (PInt n) = Inr (nat n)"
| "py_range _ = Inl TypeError"

subsection \<open>Decimal rendering and the timestamp format\<close>

definition digit_char :: "nat \<Rightarrow> char" where
  "digit_char d = ''0123456789'' ! d"

fun show_nat :: "nat \<Rightarrow> string" where
  "show_nat n =
     (if n < 10 then [digit_char n] else show_nat (n div 10) @ [digit_char (n mod 10)])"

declare show_nat.simps [simp del]

definition zero_pad :: "nat \<Rightarrow> nat \<Rightarrow> string" where
  "zero_pad width n = replicate (width - length (show_nat n)) (CHR ''0'') @ show_nat n"

record datetime =
  year :: nat
  month :: nat
  day :: nat
  hour :: nat
  minute :: nat
  second :: nat

text \<open>
  \<^verbatim>\<open>date.strftime("%Y/%m/%d_%H:%M:%S ")\<close>: the year in four digits, the other fields in
  two, and the trailing blank of the format string.
\<close>

definition strftime :: "datetime \<Rightarrow> string" where
  "strftime date =
     zero_pad 4 (year date) @ ''/'' @ zero_pad 2 (month date) @ ''/'' @
     zero_pad 2 (day date) @ ''_'' @ zero_pad 2 (hour date) @ '':'' @
     zero_pad 2 (minute date) @ '':'' @ zero_pad 2 (second date) @ '' ''"

section \<open>The world of the emission-logging notebook\<close>

text \<open>
  A file is the list of strings written to it so far and whether its handle has been
  closed.  \<^verbatim>\<open>plt\<close> is the list of calls made on the current figure.
\<close>

record pyfile =
  contents :: "string list"
  closed :: bool

datatype 'v plt_call =
    Plot "int list" "'v list" string
  | XLabel string
  | YLabel string
  | Title string
  | Show

text \<open>
  The world: the module's global names (a Python \<^verbatim>\<open>dict\<close>, so a partial map), how
  many times the gun and the clock have been read, the lines still to be typed at the
  prompt, what has been written to standard output, the file system, the sleeps
  performed and the figure.
\<close>

record 'v world =
  globals :: "string \<rightharpoonup> pyval"
  gun_reads :: nat
  clock_reads :: nat
  stdin :: "string list"
  stdout :: "string list"
  files :: "string \<rightharpoonup> pyfile"
  sleeps :: "int list"
  figure :: "'v plt_call list"

text \<open>
  The devices behind the vendor calls: the value the gun reports at its \<open>k\<close>-th
  reading (\<^verbatim>\<open>TEM3.GUN3().GetEmissionCurrentValue()\<close>), the time the clock shows at its
  \<open>k\<close>-th reading (\<^verbatim>\<open>datetime.datetime.today()\<close>), Python's \<^verbatim>\<open>str\<close> on a gun
  value (a float, whose rendering is left to the device) and the longest sleep, in
  seconds, that the operating system's sleep call takes (on Windows the call counts
  milliseconds in 32 bits, so the bound is 4294967 there; elsewhere only the bound of
  the timestamp conversion below applies).
\<close>

record 'v devices =
  GetEmissionCurrentValue :: "nat \<Rightarrow> 'v"
  today :: "nat \<Rightarrow> datetime"
  py_str :: "'v \<Rightarrow> string"
  max_sleep :: int

definition py_print :: "string \<Rightarrow> 'v world \<Rightarrow> 'v world" where
  "py_print s w = w\<lparr>stdout := stdout w @ [s @ ''\<newline>'']\<rparr>"

text \<open>\<^verbatim>\<open>open(name, "w")\<close> creates the file or discards what it held.\<close>

definition open_w :: "string \<Rightarrow> 'v world \<Rightarrow> 'v world" where
  "open_w name w = w\<lparr>files := (files w)(name \<mapsto> \<lparr>contents = [], closed = False\<rparr>)\<rparr>"

definition file_write :: "string \<Rightarrow> string \<Rightarrow> 'v world \<Rightarrow> 'v world" where
  "file_write name s w =
     (case files w name of
        None \<Rightarrow> w
      | Some f \<Rightarrow> w\<lparr>files := (files w)(name \<mapsto> f\<lparr>contents := contents f @ [s]\<rparr>)\<rparr>)"

definition file_close :: "string \<Rightarrow> 'v world \<Rightarrow> 'v world" where
  "file_close name w =
     (case files w name of
        None \<Rightarrow> w
      | Some f \<Rightarrow> w\<lparr>files := (files w)(name \<mapsto> f\<lparr>closed := True\<rparr>)\<rparr>)"

text \<open>
  The interpreter keeps a sleep length as a signed 64-bit count of nanoseconds: a whole
  number of seconds converts when its size is at most \<open>(2^63 - 1) div 10^9\<close>.
\<close>

definition timestamp_max :: int where
  "timestamp_max = 9223372036"

text \<open>
  \<^verbatim>\<open>time.sleep(interval_time)\<close>, from the lookup of the global name on.  An unbound
  name is a \<^verbatim>\<open>NameError\<close> and a value that is not a number a \<^verbatim>\<open>TypeError\<close>.  An
  integer is first converted to a timestamp, which raises \<^verbatim>\<open>OverflowError\<close> when it is
  too large in size; then a negative length is a \<^verbatim>\<open>ValueError\<close> (sleep length must be
  non-negative); then the operating system's call raises \<^verbatim>\<open>OverflowError\<close> for a
  length beyond its bound \<open>lim\<close>; otherwise the call sleeps and returns.
\<close>

fun time_sleep :: "int \<Rightarrow> pyval option \<Rightarrow> 'v world \<Rightarrow> error + 'v world" where
  "time_sleep lim None w = Inl NameError"
| "time_sleep lim (Some (PInt t)) w =
     (if t < - timestamp_max \<or> timestamp_max < t then Inl OverflowError
      else if t < 0 then Inl ValueError
      else if lim < t then Inl OverflowError
      else Inr (w\<lparr>sleeps := sleeps w @ [t]\<rparr>))"
| "time_sleep lim (Some _) w = Inl TypeError"

section \<open>emission\_log\<close>

text \<open>
  One pass through the body of the \<^verbatim>\<open>for\<close> loop of \<^verbatim>\<open>emission_log\<close>; \<open>i\<close> is
  the loop variable, \<open>x\<close> and \<open>y\<close> the two local lists.  An exception leaves the
  body with the world as it is at that point.
\<close>

definition emission_body ::
  "'v devices \<Rightarrow> nat \<Rightarrow> int list \<times> 'v list \<times> 'v world \<Rightarrow>
     error option \<times> int list \<times> 'v list \<times> 'v world" where
  "emission_body dev i s =
     (case s of (x, y, w) \<Rightarrow>
        let val = GetEmissionCurrentValue dev (gun_reads w);
            w1 = w\<lparr>gun_reads := Suc (gun_reads w)\<rparr>;
            x1 = x @ [int i];
            y1 = y @ [val];
            w2 = py_print (''Emission Value: '' @ py_str dev val) w1;
            date = today dev (clock_reads w2);
            w3 = w2\<lparr>clock_reads := Suc (clock_reads w2)\<rparr>;
            write_data = strftime date @ ''EmissionValue: '' @ py_str dev val @ ''\<newline>'';
            w4 = file_write ''log.txt'' write_data w3
        in case time_sleep (max_sleep dev) (globals w4 ''interval_time'') w4 of
             Inl e \<Rightarrow> (Some e, x1, y1, w4)
           | Inr w5 \<Rightarrow> (None, x1, y1, w5))"

text \<open>The loop: the body for \<open>i\<close>, \<open>i + 1\<close>, ... until the iterations are used up or
  the body raises.\<close>

fun emission_loop ::
  "'v devices \<Rightarrow> nat \<Rightarrow> nat \<Rightarrow> int list \<times> 'v list \<times> 'v world \<Rightarrow>
     error option \<times> int list \<times> 'v list \<times> 'v world" where
  "emission_loop dev i 0 s = (None, s)"
| "emission_loop dev i (Suc k) s =
     (case emission_body dev i s of
        (Some e, s1) \<Rightarrow> (Some e, s1)
      | (None, s1) \<Rightarrow> emission_loop dev (Suc i) k s1)"

text \<open>
  \<^verbatim>\<open>emission_log(count, sleeptime)\<close>.  The file is opened before \<^verbatim>\<open>range(count)\<close>
  is evaluated; the parameter \<open>sleeptime\<close> is never read.
\<close>

definition emission_log ::
  "'v devices \<Rightarrow> pyval \<Rightarrow> pyval \<Rightarrow> 'v world \<Rightarrow> (error + pyval) \<times> 'v world" where
  "emission_log dev count sleeptime w =
     (let w0 = open_w ''log.txt'' w
      in case py_range count of
           Inl e \<Rightarrow> (Inl e, w0)
         | Inr n \<Rightarrow>
             (case emission_loop dev 0 n ([], [], w0) of
                (Some e, x, y, w1) \<Rightarrow> (Inl e, w1)
              | (None, x, y, w1) \<Rightarrow>
                  (Inr PNone,
                   (file_close ''log.txt'' w1)
                     \<lparr>figure := figure w1 @
                        [Plot x y ''-'', XLabel ''Count'', YLabel ''EmissionValue'',
                         Title ''EmissionCurrentValue'', Show]\<rparr>)))"

section \<open>The driver cell\<close>

text \<open>
  \<^verbatim>\<open>int(s)\<close> on a string: blanks around the number are dropped, one sign is allowed,
  and what is left must be a non-empty run of decimal digits; anything else is a
  \<^verbatim>\<open>ValueError\<close>.  The result is always an \<^verbatim>\<open>int\<close>.  (Strings are bytes here: the
  digits and blanks beyond ASCII that Python also accepts, and the underscores of later
  Python versions, are read as non-numeric.)
\<close>

definition is_space :: "char \<Rightarrow> bool" where
  "is_space c =
     (c = CHR '' '' \<or> c = CHR 0x09 \<or> c = CHR 0x0A \<or> c = CHR 0x0B \<or> c = CHR 0x0C \<or>
      c = CHR 0x0D)"

definition is_digit :: "char \<Rightarrow> bool" where
  "is_digit c = (48 \<le> (of_char c :: nat) \<and> (of_char c :: nat) \<le> 57)"

definition digits_value :: "string \<Rightarrow> nat" where
  "digits_value ds = foldl (\<lambda>acc c. 10 * acc + (of_char c - 48)) 0 ds"

definition py_strip :: "string \<Rightarrow> string" where
  "py_strip s = rev (dropWhile is_space (rev (dropWhile is_space s)))"

definition py_int :: "string \<Rightarrow> error + pyval" where
  "py_int s =
     (let t = py_strip s;
          negative = (case t of [] \<Rightarrow> False | c # r \<Rightarrow> c = CHR ''-'');
          ds = (case t of [] \<Rightarrow> [] | c # r \<Rightarrow> if c = CHR ''-'' \<or> c = CHR ''+'' then r else t)
      in if ds \<noteq> [] \<and> list_all is_digit ds
         then Inr (PInt (if negative then - int (digits_value ds) else int (digits_value ds)))
         else Inl ValueError)"

text \<open>
  \<^verbatim>\<open>input(prompt)\<close> writes the prompt and takes the next typed line; with no line
  left it raises \<^verbatim>\<open>EOFError\<close>.
\<close>

definition py_input :: "string \<Rightarrow> 'v world \<Rightarrow> (error + string) \<times> 'v world" where
  "py_input prompt w =
     (let w1 = w\<lparr>stdout := stdout w @ [prompt]\<rparr>
      in case stdin w1 of
           [] \<Rightarrow> (Inl EOFError, w1)
         | l # ls \<Rightarrow> (Inr l, w1\<lparr>stdin := ls\<rparr>))"

text \<open>An assignment to a global name.\<close>

definition assign :: "string \<Rightarrow> pyval \<Rightarrow> 'v world \<Rightarrow> 'v world" where
  "assign name v w = w\<lparr>globals := (globals w)(name \<mapsto> v)\<rparr>"

text \<open>The first prompt (four Japanese characters, a colon and a blank), in UTF-8.\<close>

definition prompt_count :: string where
  "prompt_count =
     [CHR 0xE8, CHR 0xA9, CHR 0xA6, CHR 0xE8, CHR 0xA1, CHR 0x8C, CHR 0xE5, CHR 0x9B, CHR 0x9E,
      CHR 0xE6, CHR 0x95, CHR 0xB0] @ '': ''"

text \<open>
  The driver cell, statement by statement:
  \<^verbatim>\<open>count = int(input(...))\<close>, \<^verbatim>\<open>if count == None: print(...); count = 1\<close>,
  \<^verbatim>\<open>interval_time = int(input(...))\<close>, \<^verbatim>\<open>if interval_time == None: interval_time = 1\<close>,
  \<^verbatim>\<open>emission_log(count, time)\<close>.  Each \<^verbatim>\<open>if\<close> tests the value just assigned.
\<close>

definition driver_cell :: "'v devices \<Rightarrow> 'v world \<Rightarrow> (error + pyval) \<times> 'v world" where
  "driver_cell dev w =
     (case py_input prompt_count w of
        (Inl e, w1) \<Rightarrow> (Inl e, w1)
      | (Inr l1, w1) \<Rightarrow>
          (case py_int l1 of
             Inl e \<Rightarrow> (Inl e, w1)
           | Inr c \<Rightarrow>
               let w2 = assign ''count'' c w1;
                   w3 = (if py_eq c PNone
                         then assign ''count'' (PInt 1)
                                (py_print ''Please set the number of trials.'' w2)
                         else w2)
               in (case py_input ''Interval time: '' w3 of
                     (Inl e, w4) \<Rightarrow> (Inl e, w4)
                   | (Inr l2, w4) \<Rightarrow>
                       (case py_int l2 of
                          Inl e \<Rightarrow> (Inl e, w4)
                        | Inr t \<Rightarrow>
                            let w5 = assign ''interval_time'' t w4;
                                w6 = (if py_eq t PNone
                                      then assign ''interval_time'' (PInt 1) w5
                                      else w5)
                            in (case globals w6 ''count'' of
                                  None \<Rightarrow> (Inl NameError, w6)
                                | Some c' \<Rightarrow> emission_log dev c' (PModule ''time'') w6)))))"

text \<open>
  The same cell with the two \<^verbatim>\<open>if\<close> statements deleted: the reference that the cell
  is compared with.
\<close>

definition driver_cell_no_fallback ::
  "'v devices \<Rightarrow> 'v world \<Rightarrow> (error + pyval) \<times> 'v world" where
  "driver_cell_no_fallback dev w =
     (case py_input prompt_count w of
        (Inl e, w1) \<Rightarrow> (Inl e, w1)
      | (Inr l1, w1) \<Rightarrow>
          (case py_int l1 of
             Inl e \<Rightarrow> (Inl e, w1)
           | Inr c \<Rightarrow>
               let w2 = assign ''count'' c w1
               in (case py_input ''Interval time: '' w2 of
                     (Inl e, w4) \<Rightarrow> (Inl e, w4)
                   | (Inr l2, w4) \<Rightarrow>
                       (case py_int l2 of
                          Inl e \<Rightarrow> (Inl e, w4)
                        | Inr t \<Rightarrow>
                            let w5 = assign ''interval_time'' t w4
                            in emission_log dev c (PModule ''time'') w5))))"

section \<open>The magnification notebook: test4\<close>

text \<open>
  \<^verbatim>\<open>test4\<close> drives an object \<^verbatim>\<open>eos = TEM3.EOS3()\<close> of the vendor library.  The class is
  not part of the sources, so its two methods are parameters: \<^verbatim>\<open>UpSelector\<close> changes
  the state of the electron-optical system, \<^verbatim>\<open>GetMagValue\<close> reads a value off it, and
  \<open>str_list\<close> is Python's \<^verbatim>\<open>str\<close> on that value, which \<^verbatim>\<open>print\<close> applies.  Both
  methods are taken to return.
\<close>

datatype eos_call = Call_UpSelector | Call_GetMagValue

record ('s, 'm) eos3 =
  UpSelector :: "'s \<Rightarrow> 's"
  GetMagValue :: "'s \<Rightarrow> 'm"
  str_list :: "'m \<Rightarrow> string"

text \<open>The session: the state behind \<^verbatim>\<open>eos\<close>, the calls made on it and what has been
  printed.\<close>

record 's session =
  eos :: 's
  eos_calls :: "eos_call list"
  printed :: "string list"

text \<open>The loop body: \<^verbatim>\<open>eos.UpSelector()\<close>, then \<^verbatim>\<open>print(eos.GetMagValue())\<close>.\<close>

definition test4_body :: "('s, 'm) eos3 \<Rightarrow> 's session \<Rightarrow> 's session" where
  "test4_body api st =
     (let st1 = st\<lparr>eos := UpSelector api (eos st), eos_calls := eos_calls st @ [Call_UpSelector]\<rparr>;
          m = GetMagValue api (eos st1);
          st2 = st1\<lparr>eos_calls := eos_calls st1 @ [Call_GetMagValue]\<rparr>
      in st2\<lparr>printed := printed st2 @ [str_list api m @ ''\<newline>'']\<rparr>)"

fun test4_loop :: "('s, 'm) eos3 \<Rightarrow> nat \<Rightarrow> 's session \<Rightarrow> 's session" where
  "test4_loop api 0 st = st"
| "test4_loop api (Suc k) st = test4_loop api k (test4_body api st)"

text \<open>\<^verbatim>\<open>test4(loop)\<close>: the body for each \<open>i\<close> of \<^verbatim>\<open>range(loop)\<close>; it returns \<^verbatim>\<open>None\<close>.\<close>

definition test4 ::
  "('s, 'm) eos3 \<Rightarrow> pyval \<Rightarrow> 's session \<Rightarrow> (error + pyval) \<times> 's session" where
  "test4 api loop st =
     (case py_range loop of
        Inl e \<Rightarrow> (Inl e, st)
      | Inr n \<Rightarrow> (Inr PNone, test4_loop api n st))"

text \<open>What the \<open>k\<close>-th pass prints when the loop starts in state \<open>s0\<close>: the value read
  after \<open>k + 1\<close> applications of \<^verbatim>\<open>UpSelector\<close>.\<close>

definition printed_mag :: "('s, 'm) eos3 \<Rightarrow> 's \<Rightarrow> nat \<Rightarrow> string" where
  "printed_mag api s0 k =
     str_list api (GetMagValue api ((UpSelector api ^^ Suc k) s0)) @ ''\<newline>''"

section \<open>emission\_log: closed forms\<close>

text \<open>The lengths \<open>t\<close> for which \<^verbatim>\<open>time.sleep(t)\<close> returns.\<close>

definition sleep_returns :: "'v devices \<Rightarrow> int \<Rightarrow> bool" where
  "sleep_returns dev t = (0 \<le> t \<and> t \<le> timestamp_max \<and> t \<le> max_sleep dev)"

text \<open>
  What the \<open>j\<close>-th pass of the loop prints and what it writes to the file, when the
  gun has been read \<open>g\<close> times and the clock \<open>c\<close> times before the call.
\<close>

definition printed_line :: "'v devices \<Rightarrow> nat \<Rightarrow> nat \<Rightarrow> string" where
  "printed_line dev g j =
     ''Emission Value: '' @ py_str dev (GetEmissionCurrentValue dev (g + j)) @ ''\<newline>''"

definition logged_line :: "'v devices \<Rightarrow> nat \<Rightarrow> nat \<Rightarrow> nat \<Rightarrow> string" where
  "logged_line dev g c j =
     strftime (today dev (c + j)) @ ''EmissionValue: '' @
     py_str dev (GetEmissionCurrentValue dev (g + j)) @ ''\<newline>''"

subsection \<open>A concrete run: the offline gun\<close>

text \<open>
  The offline gun of the recorded run reports \<^verbatim>\<open>0.0\<close> at every reading (the notebook's
  output is ten lines \<^verbatim>\<open>Emission Value: 0.0\<close>); its values are kept as their printed
  text.  The clock is a sample one that advances by a second at each reading.
\<close>

definition sample_clock :: "nat \<Rightarrow> datetime" where
  "sample_clock k =
     \<lparr>year = 2016, month = 4, day = 8, hour = 15, minute = 30, second = k mod 60\<rparr>"

definition offline_devices :: "string devices" where
  "offline_devices =
     \<lparr>GetEmissionCurrentValue = (\<lambda>k. ''0.0''), today = sample_clock, py_str = (\<lambda>v. v),
      max_sleep = 9223372036\<rparr>"

text \<open>A notebook session before the cell runs: the given globals and typed lines,
  nothing read, printed, written, slept or drawn yet.\<close>

definition notebook_world :: "(string \<rightharpoonup> pyval) \<Rightarrow> string list \<Rightarrow> string world" where
  "notebook_world g typed =
     \<lparr>globals = g, gun_reads = 0, clock_reads = 0, stdin = typed, stdout = [],
      files = Map.empty, sleeps = [], figure = []\<rparr>"

definition typed_world :: "string world" where
  "typed_world = notebook_world [''interval_time'' \<mapsto> PInt 1] []"

definition negative_world :: "string world" where
  "negative_world = notebook_world [''interval_time'' \<mapsto> PInt (- 1)] []"

section \<open>Properties of emission\_log\<close>

lemma upt_0_Suc_shift: "map g [0..<Suc k] = g 0 # map (\<lambda>j. g (Suc j)) [0..<k]"
proof -
  have "[0..<Suc k] = 0 # map Suc [0..<k]"
    by (simp add: upt_conv_Cons map_Suc_upt del: upt_Suc)
  then show ?thesis by (simp add: o_def del: upt_Suc)
qed

lemma emission_body_ok:
  assumes "globals w ''interval_time'' = Some (PInt t)" and "sleep_returns dev t"
    and "files w ''log.txt'' = Some f"
  shows "emission_body dev i (x, y, w) =
     (None, x @ [int i], y @ [GetEmissionCurrentValue dev (gun_reads w)],
      w\<lparr>gun_reads := Suc (gun_reads w),
        clock_reads := Suc (clock_reads w),
        stdout := stdout w @ [printed_line dev (gun_reads w) 0],
        files := (files w)(''log.txt'' \<mapsto>
                   f\<lparr>contents := contents f @ [logged_line dev (gun_reads w) (clock_reads w) 0]\<rparr>),
        sleeps := sleeps w @ [t]\<rparr>)"
  using assms
  by (simp add: emission_body_def Let_def py_print_def file_write_def printed_line_def
      logged_line_def sleep_returns_def)

text \<open>The loop invariant, as the closed form of \<open>k\<close> passes that all sleep.\<close>

lemma emission_loop_ok:
  assumes "globals w ''interval_time'' = Some (PInt t)" and "sleep_returns dev t"
    and "files w ''log.txt'' = Some f"
  shows "emission_loop dev i k (x, y, w) =
     (None, x @ map int [i..<i + k],
      y @ map (\<lambda>j. GetEmissionCurrentValue dev (gun_reads w + j)) [0..<k],
      w\<lparr>gun_reads := gun_reads w + k,
        clock_reads := clock_reads w + k,
        stdout := stdout w @ map (printed_line dev (gun_reads w)) [0..<k],
        files := (files w)(''log.txt'' \<mapsto>
                   f\<lparr>contents := contents f @
                       map (logged_line dev (gun_reads w) (clock_reads w)) [0..<k]\<rparr>),
        sleeps := sleeps w @ replicate k t\<rparr>)"
  using assms
proof (induction k arbitrary: i x y w f)
  case 0
  then have "(files w)(''log.txt'' \<mapsto> f) = files w"
    by (simp add: map_upd_triv)
  then show ?case by simp
next
  case (Suc k)
  let ?f1 = "f\<lparr>contents := contents f @ [logged_line dev (gun_reads w) (clock_reads w) 0]\<rparr>"
  let ?w1 = "w\<lparr>gun_reads := Suc (gun_reads w),
        clock_reads := Suc (clock_reads w),
        stdout := stdout w @ [printed_line dev (gun_reads w) 0],
        files := (files w)(''log.txt'' \<mapsto> ?f1),
        sleeps := sleeps w @ [t]\<rparr>"
  have body: "emission_body dev i (x, y, w) =
      (None, x @ [int i], y @ [GetEmissionCurrentValue dev (gun_reads w)], ?w1)"
    using Suc.prems by (rule emission_body_ok)
  have g1: "globals ?w1 ''interval_time'' = Some (PInt t)"
    using Suc.prems(1) by simp
  have f1: "files ?w1 ''log.txt'' = Some ?f1" by simp
  have shiftp: "printed_line dev (Suc g) = (\<lambda>j. printed_line dev g (Suc j))" for g
    by (simp add: printed_line_def fun_eq_iff)
  have shiftl: "logged_line dev (Suc g) (Suc c) = (\<lambda>j. logged_line dev g c (Suc j))" for g c
    by (simp add: logged_line_def fun_eq_iff)
  have shifti: "map int [i..<Suc (i + k)] = int i # map int [Suc i..<Suc (i + k)]"
    by (simp add: upt_conv_Cons del: upt_Suc)
  have rest: "emission_loop dev (Suc i) k
       (x @ [int i], y @ [GetEmissionCurrentValue dev (gun_reads w)], ?w1) =
     (None, (x @ [int i]) @ map int [Suc i..<Suc i + k],
      (y @ [GetEmissionCurrentValue dev (gun_reads w)]) @
         map (\<lambda>j. GetEmissionCurrentValue dev (gun_reads ?w1 + j)) [0..<k],
      ?w1\<lparr>gun_reads := gun_reads ?w1 + k,
        clock_reads := clock_reads ?w1 + k,
        stdout := stdout ?w1 @ map (printed_line dev (gun_reads ?w1)) [0..<k],
        files := (files ?w1)(''log.txt'' \<mapsto>
                   ?f1\<lparr>contents := contents ?f1 @
                       map (logged_line dev (gun_reads ?w1) (clock_reads ?w1)) [0..<k]\<rparr>),
        sleeps := sleeps ?w1 @ replicate k t\<rparr>)"
    using g1 Suc.prems(2) f1 by (rule Suc.IH)
  show ?case
    apply (subst emission_loop.simps)
    apply (subst body)
    apply (simp only: prod.case option.case)
    apply (subst rest)
    apply (simp add: upt_0_Suc_shift shifti shiftp shiftl replicate_append_same del: upt_Suc)
    done
qed

lemma strftime_sample_0: "strftime (sample_clock 0) = ''2016/04/08_15:30:00 ''"
  by code_simp

lemma strftime_sample_1: "strftime (sample_clock (Suc 0)) = ''2016/04/08_15:30:01 ''"
  by code_simp

lemma strftime_sample_2: "strftime (sample_clock (Suc (Suc 0))) = ''2016/04/08_15:30:02 ''"
  by code_simp

text \<open>
  The run in which every sleep returns.  When \<open>count\<close> is not positive, or the global
  \<^verbatim>\<open>interval_time\<close> is bound to an integer for which \<^verbatim>\<open>time.sleep\<close> returns, the call
  reads the gun \<open>count\<close> times, prints once per reading, leaves \<^verbatim>\<open>log.txt\<close> holding
  exactly the \<open>count\<close> lines written and closed, draws the plot and returns \<^verbatim>\<open>None\<close>.
\<close>

lemma emission_log_closed_form:
  assumes "n \<le> 0 \<or> (globals w ''interval_time'' = Some (PInt t) \<and> sleep_returns dev t)"
  shows "emission_log dev (PInt n) sleeptime w =
     (Inr PNone,
      w\<lparr>gun_reads := gun_reads w + nat n,
        clock_reads := clock_reads w + nat n,
        stdout := stdout w @ map (printed_line dev (gun_reads w)) [0..<nat n],
        files := (files w)(''log.txt'' \<mapsto>
                   \<lparr>contents = map (logged_line dev (gun_reads w) (clock_reads w)) [0..<nat n],
                    closed = True\<rparr>),
        sleeps := sleeps w @ replicate (nat n) t,
        figure := figure w @
          [Plot (map int [0..<nat n])
             (map (\<lambda>j. GetEmissionCurrentValue dev (gun_reads w + j)) [0..<nat n]) ''-'',
           XLabel ''Count'', YLabel ''EmissionValue'', Title ''EmissionCurrentValue'', Show]\<rparr>)"
proof (cases "n \<le> 0")
  case True
  then have "nat n = 0" by simp
  then show ?thesis
    by (simp add: emission_log_def open_w_def file_close_def)
next
  case False
  with assms have g: "globals w ''interval_time'' = Some (PInt t)" and t: "sleep_returns dev t"
    by simp_all
  let ?w0 = "open_w ''log.txt'' w"
  have g0: "globals ?w0 ''interval_time'' = Some (PInt t)"
    using g by (simp add: open_w_def)
  have f0: "files ?w0 ''log.txt'' = Some \<lparr>contents = [], closed = False\<rparr>"
    by (simp add: open_w_def)
  note loop = emission_loop_ok
    [OF g0 t f0, where i = 0 and k = "nat n" and x = "[]" and y = "[]"]
  show ?thesis
    unfolding emission_log_def Let_def py_range.simps sum.case loop
    by (simp add: open_w_def file_close_def)
qed

text \<open>
  Such a run: three readings of the offline gun with \<^verbatim>\<open>interval_time = 1\<close> and the
  module \<^verbatim>\<open>time\<close> passed as \<open>sleeptime\<close>, as the driver cell does.
\<close>

lemma emission_log_sample_run:
  "fst (emission_log offline_devices (PInt 3) (PModule ''time'') typed_world) = Inr PNone \<and>
   gun_reads (snd (emission_log offline_devices (PInt 3) (PModule ''time'') typed_world)) = 3 \<and>
   stdout (snd (emission_log offline_devices (PInt 3) (PModule ''time'') typed_world)) =
     [''Emission Value: 0.0\<newline>'', ''Emission Value: 0.0\<newline>'',
      ''Emission Value: 0.0\<newline>''] \<and>
   files (snd (emission_log offline_devices (PInt 3) (PModule ''time'') typed_world)) ''log.txt'' =
     Some \<lparr>contents =
       [''2016/04/08_15:30:00 EmissionValue: 0.0\<newline>'',
        ''2016/04/08_15:30:01 EmissionValue: 0.0\<newline>'',
        ''2016/04/08_15:30:02 EmissionValue: 0.0\<newline>''], closed = True\<rparr>"
proof -
  have h: "(3::int) \<le> 0 \<or>
      (globals typed_world ''interval_time'' = Some (PInt 1) \<and> sleep_returns offline_devices 1)"
    by (simp add: typed_world_def notebook_world_def sleep_returns_def timestamp_max_def
        offline_devices_def)
  have three: "[0..<nat 3] = [0, 1, 2]"
    by (simp add: upt_rec)
  show ?thesis
    unfolding emission_log_closed_form [OF h] three
    by (simp add: typed_world_def notebook_world_def offline_devices_def printed_line_def
        logged_line_def strftime_sample_0 strftime_sample_1 strftime_sample_2)
qed

text \<open>
  A sleep length too large for the timestamp is refused, whatever the platform's bound.
\<close>

lemma time_sleep_overflow:
  "time_sleep lim (Some (PInt 9223372037)) w = Inl OverflowError"
  by (simp add: timestamp_max_def)

text \<open>
  Claim C1: for every \<open>count \<ge> 0\<close> and every \<open>sleeptime\<close>, \<^verbatim>\<open>emission_log(count, sleeptime)\<close>
  reads the gun exactly \<open>count\<close> times, prints once per reading, opens \<^verbatim>\<open>log.txt\<close> in
  write mode, writes exactly \<open>count\<close> lines, closes the file and returns \<^verbatim>\<open>None\<close>.  The
  code departs from it.  The docstring calls \<open>sleeptime\<close> the sleep time of the
  acquisition, but the loop sleeps for the global \<^verbatim>\<open>interval_time\<close> and never reads
  \<open>sleeptime\<close>.  With \<open>count = 2\<close>, \<open>sleeptime = 1\<close> and \<^verbatim>\<open>interval_time = -1\<close>, the first
  pass reads the gun, prints and writes one line, and \<^verbatim>\<open>time.sleep(-1)\<close> raises
  \<^verbatim>\<open>ValueError\<close>: one reading instead of two, one line instead of two, the file left
  open, and no \<^verbatim>\<open>None\<close> returned.  The driver cell reaches this state when \<^verbatim>\<open>2\<close> and
  \<^verbatim>\<open>-1\<close> are typed at its prompts.
\<close>

theorem emission_log_sleeps_on_global_interval:
  "fst (emission_log offline_devices (PInt 2) (PInt 1) negative_world) = Inl ValueError \<and>
   gun_reads (snd (emission_log offline_devices (PInt 2) (PInt 1) negative_world)) = 1 \<and>
   stdout (snd (emission_log offline_devices (PInt 2) (PInt 1) negative_world)) =
     [''Emission Value: 0.0\<newline>''] \<and>
   files (snd (emission_log offline_devices (PInt 2) (PInt 1) negative_world)) ''log.txt'' =
     Some \<lparr>contents = [''2016/04/08_15:30:00 EmissionValue: 0.0\<newline>''],
           closed = False\<rparr> \<and>
   fst (driver_cell offline_devices (notebook_world Map.empty [''2'', ''-1''])) = Inl ValueError"
proof -
  have two: "nat 2 = Suc (Suc 0)" by simp
  have run: "emission_log offline_devices (PInt 2) (PInt 1) negative_world =
    (Inl ValueError,
     negative_world\<lparr>gun_reads := 1, clock_reads := 1,
       stdout := [''Emission Value: 0.0\<newline>''],
       files := [''log.txt'' \<mapsto>
         \<lparr>contents = [''2016/04/08_15:30:00 EmissionValue: 0.0\<newline>''],
          closed = False\<rparr>]\<rparr>)"
    unfolding emission_log_def Let_def py_range.simps sum.case two emission_loop.simps
    by (simp add: emission_body_def Let_def negative_world_def notebook_world_def
        offline_devices_def open_w_def file_write_def py_print_def strftime_sample_0
        timestamp_max_def)
  have typed: "py_int ''2'' = Inr (PInt 2)" "py_int ''-1'' = Inr (PInt (- 1))"
    by code_simp+
  have driver: "fst (driver_cell offline_devices (notebook_world Map.empty [''2'', ''-1''])) =
      fst (emission_log offline_devices (PInt 2) (PModule ''time'')
        ((notebook_world Map.empty [])
           \<lparr>globals := [''count'' \<mapsto> PInt 2, ''interval_time'' \<mapsto> PInt (- 1)],
            stdout := [prompt_count, ''Interval time: '']\<rparr>))"
    by (simp add: driver_cell_def py_input_def assign_def notebook_world_def Let_def typed)
  have "fst (emission_log offline_devices (PInt 2) (PModule ''time'')
        ((notebook_world Map.empty [])
           \<lparr>globals := [''count'' \<mapsto> PInt 2, ''interval_time'' \<mapsto> PInt (- 1)],
            stdout := [prompt_count, ''Interval time: '']\<rparr>)) = Inl ValueError"
    unfolding emission_log_def Let_def py_range.simps sum.case two emission_loop.simps
    by (simp add: emission_body_def Let_def notebook_world_def open_w_def file_write_def
        py_print_def timestamp_max_def)
  with driver show ?thesis unfolding run by simp
qed

text \<open>
  Claim C5.  What \<^verbatim>\<open>emission_log\<close> returns and every effect it has (what it prints,
  what it writes to \<^verbatim>\<open>log.txt\<close>, how long it sleeps, whether it raises) are the same
  for any two values of \<open>sleeptime\<close>, the module \<^verbatim>\<open>time\<close> included, when the count, the
  world, the gun and the clock are the same: the parameter is never read, the loop
  sleeps for the global \<^verbatim>\<open>interval_time\<close>.
\<close>

theorem emission_log_ignores_sleeptime:
  "emission_log dev c s1 w = emission_log dev c s2 w"
  by (simp add: emission_log_def)

text \<open>The same at a concrete input: the default-style argument \<open>1\<close> against the module
  that the driver cell passes.\<close>

theorem emission_log_ignores_sleeptime_witness:
  "emission_log offline_devices (PInt 3) (PInt 1) typed_world =
   emission_log offline_devices (PInt 3) (PModule ''time'') typed_world"
  by (rule emission_log_ignores_sleeptime)

section \<open>Properties of the driver cell\<close>

lemma py_int_cases: "py_int s = Inl ValueError \<or> (\<exists>n. py_int s = Inr (PInt n))"
  by (simp add: py_int_def Let_def)

lemma py_int_not_None: "py_int s = Inr c \<Longrightarrow> \<not> py_eq c PNone"
  using py_int_cases [of s] by auto

lemma py_input_globals: "globals (snd (py_input p w)) = globals w"
  by (simp add: py_input_def Let_def split: list.splits)

lemma driver_eq: "driver_cell dev w = driver_cell_no_fallback dev w"
proof -
  have count_bound: "globals w4 ''count'' = Some c"
    if "py_input p (assign ''count'' c w1) = (r, w4)" for p c r and w1 w4 :: "'v world"
    using py_input_globals [of p "assign ''count'' c w1"] that by (simp add: assign_def)
  show ?thesis
    unfolding driver_cell_def driver_cell_no_fallback_def
    by (auto simp: Let_def py_int_not_None assign_def dest: count_bound[unfolded assign_def]
        split: prod.splits sum.splits)
qed

lemma py_int_10: "py_int ''10'' = Inr (PInt 10)"
  by code_simp

lemma py_int_abc: "py_int ''abc'' = Inl ValueError"
  by code_simp

lemma py_int_empty: "py_int [] = Inl ValueError"
  by code_simp

text \<open>
  Claim C6.  Both fallback branches of the driver cell are unreachable.  \<^verbatim>\<open>int\<close> of a
  typed line is an integer or raises \<^verbatim>\<open>ValueError\<close>, so the value tested by
  \<^verbatim>\<open>count == None\<close> and by \<^verbatim>\<open>interval_time == None\<close> is never \<^verbatim>\<open>None\<close>; the cell
  behaves, for every world, as the cell with both \<^verbatim>\<open>if\<close> statements deleted, so
  \<^verbatim>\<open>count = 1\<close> and \<^verbatim>\<open>interval_time = 1\<close> are never executed; and a line that is not a
  number makes the cell raise \<^verbatim>\<open>ValueError\<close> without binding the name it was read for
  (no default is taken).
\<close>

theorem driver_cell_fallbacks_unreachable:
  "(py_int s = Inl ValueError \<or> (\<exists>n. py_int s = Inr (PInt n))) \<and>
   (py_int s = Inr c \<longrightarrow> \<not> py_eq c PNone) \<and>
   driver_cell dev w = driver_cell_no_fallback dev w \<and>
   (stdin wa = l # ls \<and> py_int l = Inl ValueError \<longrightarrow>
      fst (driver_cell dev wa) = Inl ValueError \<and>
      globals (snd (driver_cell dev wa)) = globals wa) \<and>
   (stdin wb = l1 # l2 # ls' \<and> py_int l1 = Inr c1 \<and> py_int l2 = Inl ValueError \<longrightarrow>
      fst (driver_cell dev wb) = Inl ValueError \<and>
      globals (snd (driver_cell dev wb)) = (globals wb)(''count'' \<mapsto> c1))"
proof (intro conjI impI)
  show "py_int s = Inl ValueError \<or> (\<exists>n. py_int s = Inr (PInt n))"
    by (rule py_int_cases)
next
  assume "py_int s = Inr c"
  then show "\<not> py_eq c PNone" by (rule py_int_not_None)
next
  show "driver_cell dev w = driver_cell_no_fallback dev w" by (rule driver_eq)
next
  assume a: "stdin wa = l # ls \<and> py_int l = Inl ValueError"
  then show "fst (driver_cell dev wa) = Inl ValueError"
    by (simp add: driver_eq driver_cell_no_fallback_def py_input_def Let_def)
  from a show "globals (snd (driver_cell dev wa)) = globals wa"
    by (simp add: driver_eq driver_cell_no_fallback_def py_input_def Let_def)
next
  assume a: "stdin wb = l1 # l2 # ls' \<and> py_int l1 = Inr c1 \<and> py_int l2 = Inl ValueError"
  then show "fst (driver_cell dev wb) = Inl ValueError"
    by (simp add: driver_eq driver_cell_no_fallback_def py_input_def Let_def assign_def)
  from a show "globals (snd (driver_cell dev wb)) = (globals wb)(''count'' \<mapsto> c1)"
    by (simp add: driver_eq driver_cell_no_fallback_def py_input_def Let_def assign_def)
qed

text \<open>
  The theorem at concrete inputs: \<^verbatim>\<open>10\<close> is read as the integer ten, which is not
  \<^verbatim>\<open>None\<close>; typing \<^verbatim>\<open>abc\<close> at the first prompt raises and leaves \<^verbatim>\<open>count\<close> unbound;
  an empty line at the second prompt raises and leaves \<^verbatim>\<open>interval_time\<close> unbound.
\<close>

theorem driver_cell_fallbacks_unreachable_witness:
  "py_int ''10'' = Inr (PInt 10) \<and> \<not> py_eq (PInt 10) PNone \<and>
   driver_cell offline_devices (notebook_world Map.empty [''10'', ''abc'']) =
     driver_cell_no_fallback offline_devices (notebook_world Map.empty [''10'', ''abc'']) \<and>
   fst (driver_cell offline_devices (notebook_world Map.empty [''abc''])) = Inl ValueError \<and>
   globals (snd (driver_cell offline_devices (notebook_world Map.empty [''abc'']))) ''count'' =
     None \<and>
   fst (driver_cell offline_devices (notebook_world Map.empty [''10'', []])) = Inl ValueError \<and>
   globals (snd (driver_cell offline_devices (notebook_world Map.empty [''10'', []])))
     ''interval_time'' = None"
proof -
  note inst = driver_cell_fallbacks_unreachable
    [where s = "''10''" and c = "PInt 10" and dev = offline_devices
       and w = "notebook_world Map.empty [''10'', ''abc'']"
       and wa = "notebook_world Map.empty [''abc'']" and l = "''abc''" and ls = "[]"
       and wb = "notebook_world Map.empty [''10'', []]" and ?l1.0 = "''10''" and ?l2.0 = "[]"
       and ls' = "[]" and ?c1.0 = "PInt 10"]
  have a: "stdin (notebook_world Map.empty [''abc'']) = [''abc'']"
    and b: "stdin (notebook_world Map.empty [''10'', []]) = [''10'', []]"
    and g: "globals (notebook_world Map.empty typed) = Map.empty" for typed
    by (simp_all add: notebook_world_def)
  from inst show ?thesis
    by (simp add: py_int_10 py_int_abc py_int_empty a b g)
qed

section \<open>Properties of test4\<close>

lemma test4_loop_closed:
  "test4_loop api k st =
     st\<lparr>eos := (UpSelector api ^^ k) (eos st),
        eos_calls := eos_calls st @ concat (replicate k [Call_UpSelector, Call_GetMagValue]),
        printed := printed st @ map (printed_mag api (eos st)) [0..<k]\<rparr>"
proof (induction k arbitrary: st)
  case 0
  show ?case by simp
next
  case (Suc k)
  have shift: "printed_mag api (UpSelector api s) = (\<lambda>j. printed_mag api s (Suc j))" for s
    by (simp add: printed_mag_def fun_eq_iff funpow_swap1)
  show ?case
    apply (subst test4_loop.simps)
    apply (subst Suc.IH)
    apply (simp add: test4_body_def Let_def upt_0_Suc_shift shift funpow_swap1 printed_mag_def
        del: upt_Suc)
    done
qed

lemma count_calls:
  "length (filter (\<lambda>c. c = Call_UpSelector)
     (concat (replicate k [Call_UpSelector, Call_GetMagValue]))) = k"
  by (induction k) simp_all

text \<open>
  The closed form of \<^verbatim>\<open>test4(n)\<close>, for any pair of methods that return: \<open>n\<close> calls of
  \<^verbatim>\<open>eos.UpSelector()\<close>, each followed by one call of \<^verbatim>\<open>eos.GetMagValue()\<close> whose result
  is printed, \<^verbatim>\<open>None\<close> returned, and the state of \<^verbatim>\<open>eos\<close> afterwards that of \<open>n\<close>
  applications of \<^verbatim>\<open>UpSelector\<close>; nothing is done for \<open>n = 0\<close>.  Where the selector
  stands after one application is decided by the vendor's method, not by this loop.
\<close>

lemma test4_closed_form:
  "test4 api (PInt n) st =
     (Inr PNone,
      st\<lparr>eos := (UpSelector api ^^ nat n) (eos st),
         eos_calls := eos_calls st @ concat (replicate (nat n) [Call_UpSelector, Call_GetMagValue]),
         printed := printed st @ map (printed_mag api (eos st)) [0..<nat n]\<rparr>) \<and>
   length (filter (\<lambda>c. c = Call_UpSelector) (eos_calls (snd (test4 api (PInt n) st)))) =
     length (filter (\<lambda>c. c = Call_UpSelector) (eos_calls st)) + nat n \<and>
   test4 api (PInt 0) st = (Inr PNone, st)"
proof (intro conjI)
  have run: "test4 api (PInt n) st = (Inr PNone, test4_loop api (nat n) st)"
    by (simp add: test4_def)
  show "test4 api (PInt n) st =
     (Inr PNone,
      st\<lparr>eos := (UpSelector api ^^ nat n) (eos st),
         eos_calls := eos_calls st @ concat (replicate (nat n) [Call_UpSelector, Call_GetMagValue]),
         printed := printed st @ map (printed_mag api (eos st)) [0..<nat n]\<rparr>)"
    unfolding run by (simp only: test4_loop_closed)
  show "length (filter (\<lambda>c. c = Call_UpSelector) (eos_calls (snd (test4 api (PInt n) st)))) =
     length (filter (\<lambda>c. c = Call_UpSelector) (eos_calls st)) + nat n"
    unfolding run by (simp add: test4_loop_closed count_calls)
  show "test4 api (PInt 0) st = (Inr PNone, st)"
    by (simp add: test4_def)
qed

end
